theory Spec2Isabelle
  imports Main "HOL-Library.Word"
begin

section \<open>Native result codes and the build target\<close>

text \<open>
  \<^verbatim>\<open>VssTransactionThawTimeoutException.cpp\<close> starts with a preprocessor block:
  \<^verbatim>\<open>
  #if ALPHAVSS_TARGET < ALPHAVSS_TARGET_WIN2008
  #define VSS_E_TRANSACTION_THAW_TIMEOUT E_UNEXPECTED
  #endif
  \<close>
  The macros it reads come from headers that are not part of the file
  (\<^verbatim>\<open>StdAfx.h\<close> for the target, the platform SDK for the result codes), so their
  values are the fields of a record that the definitions below take as an argument.
  A native result code is a 32-bit \<^verbatim>\<open>HRESULT\<close>.

  The preprocessor evaluates the condition of an \<^verbatim>\<open>#if\<close> in its widest integer types,
  \<^verbatim>\<open>intmax_t\<close> and \<^verbatim>\<open>uintmax_t\<close>, 64 bits wide for the compiler of C++/CLI. A value
  is signed or unsigned; two signed values are compared as signed numbers, and as soon as
  one side is unsigned both are compared as unsigned numbers. A name that no header
  defines counts as 0.
\<close>

type_synonym HRESULT = "32 word"

datatype pp_integer = PP_signed "64 word" | PP_unsigned "64 word"

fun pp_less :: "pp_integer \<Rightarrow> pp_integer \<Rightarrow> bool" where
  "pp_less (PP_signed a) (PP_signed b) = (sint a < sint b)"
| "pp_less (PP_signed a) (PP_unsigned b) = (a < b)"
| "pp_less (PP_unsigned a) (PP_signed b) = (a < b)"
| "pp_less (PP_unsigned a) (PP_unsigned b) = (a < b)"

record build_target =
  ALPHAVSS_TARGET :: pp_integer
  ALPHAVSS_TARGET_WIN2008 :: pp_integer
  E_UNEXPECTED :: HRESULT
  SDK_VSS_E_TRANSACTION_THAW_TIMEOUT :: HRESULT

text \<open>
  What the name \<^verbatim>\<open>VSS_E_TRANSACTION_THAW_TIMEOUT\<close> expands to inside the file: the
  replacement \<^verbatim>\<open>E_UNEXPECTED\<close> when the \<^verbatim>\<open>#if\<close> holds, the SDK's own value otherwise.
  The file closes, under the same condition, with \<^verbatim>\<open>#undef VSS_E_REBOOT_REQUIRED\<close>, which
  names another macro: the replacement is in force for all four constructors.
\<close>

definition VSS_E_TRANSACTION_THAW_TIMEOUT :: "build_target \<Rightarrow> HRESULT" where
  "VSS_E_TRANSACTION_THAW_TIMEOUT t =
     (if pp_less (ALPHAVSS_TARGET t) (ALPHAVSS_TARGET_WIN2008 t) then E_UNEXPECTED t
      else SDK_VSS_E_TRANSACTION_THAW_TIMEOUT t)"

section \<open>The base class\<close>

text \<open>
  A managed handle (\<^verbatim>\<open>String ^\<close>, \<^verbatim>\<open>Exception ^\<close>) may be \<^verbatim>\<open>nullptr\<close>: it is an
  \<open>option\<close>. A handle to an exception is the address of the object in the managed heap.
  The base part of an exception object carries a code, a message and an optional cause.
\<close>

type_synonym handle = nat

record VssException =
  code :: HRESULT
  message :: "string option"
  cause :: "handle option"

text \<open>
  The state a serialized exception is rebuilt from, and the token passed along with it
  (a value type in the source: \<^verbatim>\<open>StreamingContext context\<close>).
\<close>

record SerializationInfo =
  info_code :: HRESULT
  info_message :: "string option"
  info_cause :: "handle option"

record StreamingContext =
  ctx_state :: nat
  ctx_additional :: "handle option"

text \<open>
  The file calls three constructors of its base class \<^verbatim>\<open>VssException\<close> and defines none
  of them: \<^verbatim>\<open>VssException(code, message)\<close>, \<^verbatim>\<open>VssException(message, innerException)\<close>
  and \<^verbatim>\<open>VssException(info, context)\<close>. They are parameters of the class below. A
  constructor is a function of the arguments that the call passes; its result is the
  base part it has built, or \<open>None\<close> when it raises.
\<close>

record base_class =
  VssException_code_message :: "HRESULT \<Rightarrow> string option \<Rightarrow> VssException option"
  VssException_message_cause :: "string option \<Rightarrow> handle option \<Rightarrow> VssException option"
  VssException_info_ctx :: "SerializationInfo \<Rightarrow> StreamingContext \<Rightarrow> VssException option"

text \<open>
  Modelled from the spec: what the specification says of the absent base where a
  property of the class rests on it. Construction from a code and a message gives a base
  part that holds the two.
\<close>

definition keeps_code_and_message :: "base_class \<Rightarrow> bool" where
  "keeps_code_and_message B =
     (\<forall>hr msg. \<exists>b. VssException_code_message B hr msg = Some b
        \<and> code b = hr \<and> message b = msg)"

text \<open>
  Modelled from the spec: construction from a message and a cause gives a base part that
  holds the message and retains the cause.
\<close>

definition keeps_message_and_cause :: "base_class \<Rightarrow> bool" where
  "keeps_message_and_cause B =
     (\<forall>msg innerException. \<exists>b. VssException_message_cause B msg innerException = Some b
        \<and> message b = msg \<and> cause b = innerException)"

text \<open>
  Modelled from the spec: a base class as the specification describes the absent
  \<^verbatim>\<open>VssException\<close>. It keeps the code and the message it is given. It enforces the
  fixed code of the leaf class it is the base of, the argument \<open>fixed_code\<close>: an instance
  constructed from a message and a cause holds that code, whatever the cause holds, and
  retains the cause. It rebuilds an instance from the serialized attributes. It never
  fails to construct.
\<close>

definition modelled_base :: "HRESULT \<Rightarrow> base_class" where
  "modelled_base fixed_code =
     \<lparr>VssException_code_message =
        (\<lambda>hr msg. Some \<lparr>code = hr, message = msg, cause = None\<rparr>),
      VssException_message_cause =
        (\<lambda>msg innerException.
           Some \<lparr>code = fixed_code, message = msg, cause = innerException\<rparr>),
      VssException_info_ctx =
        (\<lambda>info ctx.
           Some \<lparr>code = info_code info, message = info_message info,
                  cause = info_cause info\<rparr>)\<rparr>"

text \<open>
  Modelled from the spec: the base as the class of this file meets it in a build. The
  fixed code of the class is what \<^verbatim>\<open>VSS_E_TRANSACTION_THAW_TIMEOUT\<close> stands for there.
\<close>

definition base_of_build :: "build_target \<Rightarrow> base_class" where
  "base_of_build t = modelled_base (VSS_E_TRANSACTION_THAW_TIMEOUT t)"

text \<open>
  Modelled from the spec: serialization, which the class inherits and the file does not
  define. The serialized state holds the attributes of the instance.
\<close>

definition GetObjectData :: "'a VssException_scheme \<Rightarrow> SerializationInfo" where
  "GetObjectData x = \<lparr>info_code = code x, info_message = message x, info_cause = cause x\<rparr>"

section \<open>The class VssTransactionThawTimeoutException\<close>

text \<open>
  An object in the managed heap knows the class it was created as. The classes other than
  the one defined here are told apart by their names.
\<close>

datatype exception_type = VssTransactionThawTimeoutException_type | Other_type string

record exception_object = VssException +
  dynamic_type :: exception_type

text \<open>An object of the class defined here, around the part its base constructor built.\<close>

definition derived :: "VssException \<Rightarrow> exception_object" where
  "derived b =
     \<lparr>code = code b, message = message b, cause = cause b,
      dynamic_type = VssTransactionThawTimeoutException_type\<rparr>"

text \<open>
  The four constructors. Each has an empty body and an initializer list that calls one
  constructor of the base, as in the source:
  \<^verbatim>\<open>
  VssTransactionThawTimeoutException()
    : VssException(VSS_E_TRANSACTION_THAW_TIMEOUT, L"The system was unable to thaw ...") {}
  VssTransactionThawTimeoutException(String ^ message)
    : VssException(VSS_E_TRANSACTION_THAW_TIMEOUT, message) {}
  VssTransactionThawTimeoutException(String ^ message, Exception ^ innerException)
    : VssException(message, innerException) {}
  VssTransactionThawTimeoutException(SerializationInfo ^ info, StreamingContext context)
    : VssException(info, context) {}
  \<close>
\<close>

definition VssTransactionThawTimeoutException_default ::
    "base_class \<Rightarrow> build_target \<Rightarrow> exception_object option" where
  "VssTransactionThawTimeoutException_default B t =
     map_option derived
       (VssException_code_message B (VSS_E_TRANSACTION_THAW_TIMEOUT t)
          (Some ''The system was unable to thaw the Distributed Transaction Coordinator (DTC) or the Kernel Transaction Manager (KTM).''))"

definition VssTransactionThawTimeoutException_message ::
    "base_class \<Rightarrow> build_target \<Rightarrow> string option \<Rightarrow> exception_object option" where
  "VssTransactionThawTimeoutException_message B t msg =
     map_option derived (VssException_code_message B (VSS_E_TRANSACTION_THAW_TIMEOUT t) msg)"

definition VssTransactionThawTimeoutException_message_cause ::
    "base_class \<Rightarrow> string option \<Rightarrow> handle option \<Rightarrow> exception_object option" where
  "VssTransactionThawTimeoutException_message_cause B msg innerException =
     map_option derived (VssException_message_cause B msg innerException)"

definition VssTransactionThawTimeoutException_info_ctx ::
    "base_class \<Rightarrow> SerializationInfo \<Rightarrow> StreamingContext \<Rightarrow> exception_object option" where
  "VssTransactionThawTimeoutException_info_ctx B info ctx =
     map_option derived (VssException_info_ctx B info ctx)"

section \<open>Creating instances in the managed heap\<close>

text \<open>
  The file defines the four constructors and no other member. \<^verbatim>\<open>gcnew\<close> runs one of
  them and, when it returns,
  puts the new object at the next free address of the heap and gives back its handle;
  when the constructor raises, no object is made.
\<close>

type_synonym heap = "exception_object list"

datatype creation =
    New_default
  | New_message "string option"
  | New_message_cause "string option" "handle option"
  | New_info_ctx SerializationInfo StreamingContext

fun construct :: "base_class \<Rightarrow> build_target \<Rightarrow> creation \<Rightarrow> exception_object option" where
  "construct B t New_default = VssTransactionThawTimeoutException_default B t"
| "construct B t (New_message msg) = VssTransactionThawTimeoutException_message B t msg"
| "construct B t (New_message_cause msg innerException) =
     VssTransactionThawTimeoutException_message_cause B msg innerException"
| "construct B t (New_info_ctx info ctx) = VssTransactionThawTimeoutException_info_ctx B info ctx"

definition gcnew :: "base_class \<Rightarrow> build_target \<Rightarrow> creation \<Rightarrow> heap \<Rightarrow> handle option \<times> heap" where
  "gcnew B t c h =
     (case construct B t c of
        None \<Rightarrow> (None, h)
      | Some x \<Rightarrow> (Some (length h), h @ [x]))"

text \<open>
  Modelled from the spec: an instance of a sibling class, which the file does not
  define. A sibling is another leaf of the same base, with a code of its own; its
  instances are objects of that other class.
\<close>

definition sibling_instance :: "string \<Rightarrow> VssException \<Rightarrow> exception_object" where
  "sibling_instance name b =
     \<lparr>code = code b, message = message b, cause = cause b, dynamic_type = Other_type name\<rparr>"

section \<open>Concrete builds and objects\<close>

text \<open>
  Two builds to evaluate the definitions on, one at the Windows Server 2008 target and one
  below it, with the SDK's values of the two result codes; the base of the first build;
  and an exception of another class, already in the heap, to serve as a cause.
\<close>

definition example_target_win2008 :: build_target where
  "example_target_win2008 =
     \<lparr>ALPHAVSS_TARGET = PP_signed 3, ALPHAVSS_TARGET_WIN2008 = PP_signed 3,
      E_UNEXPECTED = 0x8000FFFF, SDK_VSS_E_TRANSACTION_THAW_TIMEOUT = 0x80042315\<rparr>"


definition example_base :: base_class where
  "example_base = base_of_build example_target_win2008"

definition example_cause :: exception_object where
  "example_cause =
     \<lparr>code = 0x80070005, message = Some ''Access is denied.'', cause = None,
      dynamic_type = Other_type ''UnauthorizedAccessException''\<rparr>"

section \<open>Properties\<close>

lemmas ctor_defs =
  VssTransactionThawTimeoutException_default_def
  VssTransactionThawTimeoutException_message_def
  VssTransactionThawTimeoutException_message_cause_def
  VssTransactionThawTimeoutException_info_ctx_def

text \<open>
  The comparison of the preprocessor: \<^verbatim>\<open>-1 < 3\<close> holds, \<^verbatim>\<open>-1 < 3u\<close> does not, since
  \<^verbatim>\<open>-1\<close> becomes the largest unsigned value.
\<close>

lemma pp_less_signed_unsigned:
  "pp_less (PP_signed (- 1)) (PP_signed 3) \<and> \<not> pp_less (PP_signed (- 1)) (PP_unsigned 3)"
  by simp

lemma construct_type:
  "construct B t c = Some x \<Longrightarrow> dynamic_type x = VssTransactionThawTimeoutException_type"
  by (cases c) (auto simp: ctor_defs derived_def)

lemma gcnew_cases:
  "gcnew B t c h = (None, h) \<and> construct B t c = None
   \<or> (\<exists>x. construct B t c = Some x \<and> gcnew B t c h = (Some (length h), h @ [x]))"
  by (cases "construct B t c") (simp_all add: gcnew_def)

lemma gcnew_keeps: "r < length h \<Longrightarrow> snd (gcnew B t c h) ! r = h ! r"
  using gcnew_cases [of B t c h] by (auto simp: nth_append)

lemma modelled_base_keeps_code_and_message: "keeps_code_and_message (modelled_base bc)"
  by (simp add: keeps_code_and_message_def modelled_base_def)

lemma modelled_base_keeps_message_and_cause: "keeps_message_and_cause (modelled_base bc)"
  by (simp add: keeps_message_and_cause_def modelled_base_def)





text \<open>
  C3. Serializing the instance built by the constructor without arguments and rebuilding
  it with the reconstructing constructor gives an instance with the same code and the
  same message.
\<close>

theorem default_round_trip:
  "\<exists>x y. VssTransactionThawTimeoutException_default (modelled_base bc) t = Some x
     \<and> VssTransactionThawTimeoutException_info_ctx (modelled_base bc) (GetObjectData x) ctx
         = Some y
     \<and> code y = code x \<and> message y = message x"
  by (simp add: ctor_defs derived_def modelled_base_def GetObjectData_def)

text \<open>
  C4. Built from a message text \<open>m\<close> and a cause \<open>e\<close>, over a base that keeps the two, the
  instance has message \<open>m\<close> and cause \<open>e\<close>, the very handle it was given; and creating
  the instance leaves the object behind \<open>e\<close> in the heap as it was.
\<close>

theorem message_and_cause_kept:
  assumes "keeps_message_and_cause B"
  shows "(\<exists>x. VssTransactionThawTimeoutException_message_cause B (Some m) (Some e) = Some x
             \<and> message x = Some m \<and> cause x = Some e)
       \<and> (e < length h \<longrightarrow>
            snd (gcnew B t (New_message_cause (Some m) (Some e)) h) ! e = h ! e)"
proof -
  obtain b where "VssException_message_cause B (Some m) (Some e) = Some b"
      and "message b = Some m" and "cause b = Some e"
    using assms unfolding keeps_message_and_cause_def by blast
  then show ?thesis
    by (simp add: VssTransactionThawTimeoutException_message_cause_def derived_def gcnew_keeps)
qed

theorem message_and_cause_kept_witness:
  "keeps_message_and_cause example_base
   \<and> (\<exists>x. VssTransactionThawTimeoutException_message_cause example_base
             (Some ''custom msg'') (Some 0) = Some x
         \<and> message x = Some ''custom msg'' \<and> cause x = Some 0)
   \<and> 0 < length [example_cause]
   \<and> snd (gcnew example_base example_target_win2008
             (New_message_cause (Some ''custom msg'') (Some 0)) [example_cause]) ! 0
       = example_cause"
proof -
  have base: "keeps_message_and_cause example_base"
    unfolding example_base_def base_of_build_def by (rule modelled_base_keeps_message_and_cause)
  from message_and_cause_kept
    [OF base, of "''custom msg''" 0 "[example_cause]" example_target_win2008] base
  show ?thesis by simp
qed

text \<open>
  C5. Over a base that keeps the code and the message it is given, the constructor
  without arguments gives an instance whose message is exactly the fixed sentence about
  the DTC and the KTM and whose code is what \<^verbatim>\<open>VSS_E_TRANSACTION_THAW_TIMEOUT\<close> stands
  for in the build.
\<close>

theorem default_message_and_code:
  assumes "keeps_code_and_message B"
  shows "\<exists>x. VssTransactionThawTimeoutException_default B t = Some x
     \<and> message x = Some ''The system was unable to thaw the Distributed Transaction Coordinator (DTC) or the Kernel Transaction Manager (KTM).''
     \<and> code x = VSS_E_TRANSACTION_THAW_TIMEOUT t"
proof -
  obtain b where "VssException_code_message B (VSS_E_TRANSACTION_THAW_TIMEOUT t)
      (Some ''The system was unable to thaw the Distributed Transaction Coordinator (DTC) or the Kernel Transaction Manager (KTM).'') = Some b"
    and "code b = VSS_E_TRANSACTION_THAW_TIMEOUT t"
    and "message b = Some ''The system was unable to thaw the Distributed Transaction Coordinator (DTC) or the Kernel Transaction Manager (KTM).''"
    using assms unfolding keeps_code_and_message_def by blast
  then show ?thesis
    by (simp add: VssTransactionThawTimeoutException_default_def derived_def)
qed

theorem default_message_and_code_witness:
  "keeps_code_and_message example_base
   \<and> (\<exists>x. VssTransactionThawTimeoutException_default example_base example_target_win2008 = Some x
         \<and> message x = Some ''The system was unable to thaw the Distributed Transaction Coordinator (DTC) or the Kernel Transaction Manager (KTM).''
         \<and> code x = 0x80042315)"
proof -
  have base: "keeps_code_and_message example_base"
    unfolding example_base_def base_of_build_def by (rule modelled_base_keeps_code_and_message)
  have win2008: "VSS_E_TRANSACTION_THAW_TIMEOUT example_target_win2008 = 0x80042315"
    by (simp add: VSS_E_TRANSACTION_THAW_TIMEOUT_def example_target_win2008_def)
  from default_message_and_code [OF base, of example_target_win2008] base win2008
  show ?thesis by simp
qed

text \<open>
  C6. Built from a message text \<open>m\<close>, the empty text too, over a base that keeps the code
  and the message it is given, the instance has message \<open>m\<close> and the code of an instance
  built without arguments.
\<close>

theorem message_only_message_and_code:
  assumes "keeps_code_and_message B"
  shows "\<exists>x d. VssTransactionThawTimeoutException_message B t (Some m) = Some x
     \<and> message x = Some m
     \<and> VssTransactionThawTimeoutException_default B t = Some d
     \<and> code x = code d
     \<and> code x = VSS_E_TRANSACTION_THAW_TIMEOUT t"
proof -
  obtain b where b: "VssException_code_message B (VSS_E_TRANSACTION_THAW_TIMEOUT t) (Some m) = Some b"
    "code b = VSS_E_TRANSACTION_THAW_TIMEOUT t" "message b = Some m"
    using assms unfolding keeps_code_and_message_def by blast
  obtain b' where b': "VssException_code_message B (VSS_E_TRANSACTION_THAW_TIMEOUT t)
      (Some ''The system was unable to thaw the Distributed Transaction Coordinator (DTC) or the Kernel Transaction Manager (KTM).'') = Some b'"
    "code b' = VSS_E_TRANSACTION_THAW_TIMEOUT t"
    using assms unfolding keeps_code_and_message_def by blast
  from b b' show ?thesis
    by (simp add: VssTransactionThawTimeoutException_message_def
        VssTransactionThawTimeoutException_default_def derived_def)
qed

theorem message_only_message_and_code_witness:
  "keeps_code_and_message example_base
   \<and> (\<exists>x d. VssTransactionThawTimeoutException_message example_base example_target_win2008
               (Some '''') = Some x
         \<and> message x = Some ''''
         \<and> VssTransactionThawTimeoutException_default example_base example_target_win2008 = Some d
         \<and> code x = code d
         \<and> code x = 0x80042315)"
proof -
  have base: "keeps_code_and_message example_base"
    unfolding example_base_def base_of_build_def by (rule modelled_base_keeps_code_and_message)
  have win2008: "VSS_E_TRANSACTION_THAW_TIMEOUT example_target_win2008 = 0x80042315"
    by (simp add: VSS_E_TRANSACTION_THAW_TIMEOUT_def example_target_win2008_def)
  from message_only_message_and_code [OF base, of example_target_win2008 "''''"] base win2008
  show ?thesis by simp
qed

text \<open>
  C7. The class adds no failure of its own: over any base, each of the four constructors
  fails exactly when the base constructor it calls fails, for every input: the message
  and the cause may be null, the serialized state and its token are arbitrary.
\<close>

theorem construction_succeeds:
  "(VssTransactionThawTimeoutException_default B t = None \<longleftrightarrow>
      VssException_code_message B (VSS_E_TRANSACTION_THAW_TIMEOUT t)
        (Some ''The system was unable to thaw the Distributed Transaction Coordinator (DTC) or the Kernel Transaction Manager (KTM).'') = None)
   \<and> (VssTransactionThawTimeoutException_message B t msg = None \<longleftrightarrow>
      VssException_code_message B (VSS_E_TRANSACTION_THAW_TIMEOUT t) msg = None)
   \<and> (VssTransactionThawTimeoutException_message_cause B msg innerException = None \<longleftrightarrow>
      VssException_message_cause B msg innerException = None)
   \<and> (VssTransactionThawTimeoutException_info_ctx B info ctx = None \<longleftrightarrow>
      VssException_info_ctx B info ctx = None)"
  by (simp add: ctor_defs)

text \<open>Over a base that does not fail, construction succeeds on null and empty inputs.\<close>

theorem construction_succeeds_witness:
  "VssTransactionThawTimeoutException_default example_base example_target_win2008 \<noteq> None
   \<and> VssTransactionThawTimeoutException_message example_base example_target_win2008 None \<noteq> None
   \<and> VssTransactionThawTimeoutException_message example_base example_target_win2008 (Some [])
       \<noteq> None
   \<and> VssTransactionThawTimeoutException_message_cause example_base None None \<noteq> None
   \<and> VssTransactionThawTimeoutException_info_ctx example_base
        \<lparr>info_code = 0, info_message = None, info_cause = None\<rparr>
        \<lparr>ctx_state = 0, ctx_additional = None\<rparr> \<noteq> None"
proof -
  have base:
    "VssException_code_message example_base hr m \<noteq> None"
    "VssException_message_cause example_base m e \<noteq> None"
    "VssException_info_ctx example_base i c \<noteq> None" for hr m e i c
    by (simp_all add: example_base_def base_of_build_def modelled_base_def)
  from construction_succeeds [of example_base example_target_win2008 None None]
    construction_succeeds [of example_base example_target_win2008 "Some []" None
      "\<lparr>info_code = 0, info_message = None, info_cause = None\<rparr>"
      "\<lparr>ctx_state = 0, ctx_additional = None\<rparr>"]
    base
  show ?thesis by simp
qed

text \<open>
  C9. An instance built by any of the four constructors is an object of the class
  \<^verbatim>\<open>VssTransactionThawTimeoutException\<close>; an instance of a sibling class is an object of
  another class, so the two differ in their class, whatever codes they hold.
\<close>

theorem told_apart_from_siblings:
  assumes "construct B t c = Some x"
  shows "dynamic_type x = VssTransactionThawTimeoutException_type
     \<and> dynamic_type x \<noteq> dynamic_type (sibling_instance name s)
     \<and> x \<noteq> sibling_instance name s"
proof -
  from assms have ty: "dynamic_type x = VssTransactionThawTimeoutException_type"
    by (rule construct_type)
  have "dynamic_type (sibling_instance name s) = Other_type name"
    by (simp add: sibling_instance_def)
  with ty have "dynamic_type x \<noteq> dynamic_type (sibling_instance name s)"
    by simp
  with ty show ?thesis by auto
qed

theorem told_apart_from_siblings_witness:
  "construct example_base example_target_win2008 (New_message_cause None None)
     = Some \<lparr>code = 0x80042315, message = None, cause = None,
             dynamic_type = VssTransactionThawTimeoutException_type\<rparr>
   \<and> \<lparr>code = 0x80042315, message = None, cause = None,
        dynamic_type = VssTransactionThawTimeoutException_type\<rparr>
       \<noteq> sibling_instance ''VssRebootRequiredException''
            \<lparr>code = 0x80042315, message = None, cause = None\<rparr>"
proof -
  have made: "construct example_base example_target_win2008 (New_message_cause None None)
     = Some \<lparr>code = 0x80042315, message = None, cause = None,
             dynamic_type = VssTransactionThawTimeoutException_type\<rparr>"
    by (simp add: ctor_defs derived_def example_base_def base_of_build_def modelled_base_def
        VSS_E_TRANSACTION_THAW_TIMEOUT_def example_target_win2008_def)
  from told_apart_from_siblings [OF made] made show ?thesis by simp
qed

text \<open>
  C10. The constructor with a message, given the sentence that the constructor without
  arguments uses, makes the same call to the base: over any base the two results are
  equal, and with them the code and the message.
\<close>

theorem default_is_message_only:
  "VssTransactionThawTimeoutException_message B t
      (Some ''The system was unable to thaw the Distributed Transaction Coordinator (DTC) or the Kernel Transaction Manager (KTM).'')
     = VssTransactionThawTimeoutException_default B t
   \<and> map_option code (VssTransactionThawTimeoutException_message B t
      (Some ''The system was unable to thaw the Distributed Transaction Coordinator (DTC) or the Kernel Transaction Manager (KTM).''))
     = map_option code (VssTransactionThawTimeoutException_default B t)
   \<and> map_option message (VssTransactionThawTimeoutException_message B t
      (Some ''The system was unable to thaw the Distributed Transaction Coordinator (DTC) or the Kernel Transaction Manager (KTM).''))
     = map_option message (VssTransactionThawTimeoutException_default B t)"
  by (simp add: VssTransactionThawTimeoutException_message_def
      VssTransactionThawTimeoutException_default_def)

end
